theory Spec2Isabelle
  imports Main "HOL-Library.AList"
begin

section \<open>Python values\<close>

text \<open>
  The todo application (\<^verbatim>\<open>todocli/models.py\<close>, \<^verbatim>\<open>todocli/storage.py\<close>) is Python: a
  dataclass does not check the annotations of its fields, and \<^verbatim>\<open>json.load\<close> hands
  \<^verbatim>\<open>Todo.from_dict\<close> whatever the file holds. The fields of a record are therefore
  Python values, and so is a parsed JSON document. JSON numbers with a fraction are
  not part of this model.
\<close>

datatype Priority = LOW | MEDIUM | HIGH

datatype pyval =
    NoneV
  | BoolV bool
  | IntV int
  | StrV string
  | PriorityV Priority
  | ListV "pyval list"
  | DictV "(string \<times> pyval) list"

text \<open>The exceptions that the modelled code can raise or names in a handler.\<close>

datatype pyerr = JSONDecodeError | KeyError | ValueError | TypeError | AttributeError

text \<open>\<^verbatim>\<open>class Priority(str, Enum)\<close>: the value of a member.\<close>

fun Priority_value :: "Priority \<Rightarrow> string" where
  "Priority_value LOW = ''low''"
| "Priority_value MEDIUM = ''medium''"
| "Priority_value HIGH = ''high''"

text \<open>
  The call \<^verbatim>\<open>Priority(s)\<close> looks a member up by value and raises \<^verbatim>\<open>ValueError\<close>
  (\<^verbatim>\<open>'s' is not a valid Priority\<close>) when there is none.
\<close>

definition Priority_call :: "string \<Rightarrow> pyerr + Priority" where
  "Priority_call s =
     (if s = ''low'' then Inr LOW
      else if s = ''medium'' then Inr MEDIUM
      else if s = ''high'' then Inr HIGH
      else Inl ValueError)"

text \<open>
  \<^verbatim>\<open>isinstance(v, str)\<close>, with the string when it holds. A member of \<^verbatim>\<open>Priority\<close> is
  a \<^verbatim>\<open>str\<close>, since the enumeration mixes \<^verbatim>\<open>str\<close> in.
\<close>

fun as_str :: "pyval \<Rightarrow> string option" where
  "as_str (StrV s) = Some s"
| "as_str (PriorityV p) = Some (Priority_value p)"
| "as_str _ = None"

text \<open>
  Python's \<^verbatim>\<open>==\<close>: \<^verbatim>\<open>bool\<close> is a subclass of \<^verbatim>\<open>int\<close>, a member of \<^verbatim>\<open>Priority\<close>
  compares as its string, lists compare element by element, and two dictionaries are
  equal when they have the same number of keys and every key of the first is bound to
  an equal value in the second.
\<close>

fun py_eq :: "pyval \<Rightarrow> pyval \<Rightarrow> bool" where
  "py_eq NoneV NoneV = True"
| "py_eq (BoolV a) (BoolV b) = (a = b)"
| "py_eq (BoolV a) (IntV n) = ((if a then 1 else 0) = n)"
| "py_eq (IntV m) (BoolV b) = (m = (if b then 1 else 0))"
| "py_eq (IntV m) (IntV n) = (m = n)"
| "py_eq (StrV s) (StrV t) = (s = t)"
| "py_eq (StrV s) (PriorityV q) = (s = Priority_value q)"
| "py_eq (PriorityV p) (StrV t) = (Priority_value p = t)"
| "py_eq (PriorityV p) (PriorityV q) = (p = q)"
| "py_eq (ListV xs) (ListV ys) = list_all2 py_eq xs ys"
| "py_eq (DictV a) (DictV b) =
     (length a = length b \<and>
      list_all (\<lambda>(k, v). case map_of b k of None \<Rightarrow> False | Some w \<Rightarrow> py_eq v w) a)"
| "py_eq _ _ = False"

text \<open>Truth value testing, as \<^verbatim>\<open>if v\<close> and \<^verbatim>\<open>not v\<close> do it.\<close>

fun truthy :: "pyval \<Rightarrow> bool" where
  "truthy NoneV = False"
| "truthy (BoolV b) = b"
| "truthy (IntV n) = (n \<noteq> 0)"
| "truthy (StrV s) = (s \<noteq> [])"
| "truthy (PriorityV p) = (Priority_value p \<noteq> [])"
| "truthy (ListV xs) = (xs \<noteq> [])"
| "truthy (DictV d) = (d \<noteq> [])"

section \<open>The item model (\<^verbatim>\<open>models.py\<close>)\<close>

text \<open>
  \<^verbatim>\<open>@dataclass class Todo\<close>. The field \<^verbatim>\<open>id\<close> is \<open>id'\<close> here, since \<open>id\<close> is the
  identity function of HOL.
\<close>

record Todo =
  id' :: pyval
  title :: pyval
  description :: pyval
  completed :: pyval
  priority :: pyval
  category :: pyval
  due_date :: pyval
  created_at :: pyval
  completed_at :: pyval

text \<open>
  Two fields have a default factory: \<^verbatim>\<open>str(uuid4())\<close> for \<^verbatim>\<open>id\<close> and
  \<^verbatim>\<open>datetime.now().isoformat()\<close> for \<^verbatim>\<open>created_at\<close>. What the two would return
  at one construction is given from outside.
\<close>

record factories =
  uuid4 :: string
  now_isoformat :: string

definition Todo_fields :: "string list" where
  "Todo_fields = [''id'', ''title'', ''description'', ''completed'', ''priority'',
     ''category'', ''due_date'', ''created_at'', ''completed_at'']"

text \<open>A keyword argument, or the default of the field when the argument is not given.\<close>

definition kwarg :: "(string \<times> pyval) list \<Rightarrow> string \<Rightarrow> pyval \<Rightarrow> pyval" where
  "kwarg kw k dflt = (case map_of kw k of Some v \<Rightarrow> v | None \<Rightarrow> dflt)"

text \<open>
  \<^verbatim>\<open>cls(**kw)\<close>, the generated \<^verbatim>\<open>__init__\<close>: a keyword that is not a field raises
  \<^verbatim>\<open>TypeError\<close> (unexpected keyword argument).
\<close>

definition Todo_init :: "factories \<Rightarrow> (string \<times> pyval) list \<Rightarrow> pyerr + Todo" where
  "Todo_init env kw =
     (if list_all (\<lambda>(k, v). k \<in> set Todo_fields) kw then
        Inr \<lparr> id' = kwarg kw ''id'' (StrV (uuid4 env)),
              title = kwarg kw ''title'' (StrV ''''),
              description = kwarg kw ''description'' (StrV ''''),
              completed = kwarg kw ''completed'' (BoolV False),
              priority = kwarg kw ''priority'' (PriorityV MEDIUM),
              category = kwarg kw ''category'' (StrV ''''),
              due_date = kwarg kw ''due_date'' NoneV,
              created_at = kwarg kw ''created_at'' (StrV (now_isoformat env)),
              completed_at = kwarg kw ''completed_at'' NoneV \<rparr>
      else Inl TypeError)"

text \<open>\<^verbatim>\<open>Todo.to_dict\<close>.\<close>

definition to_dict :: "Todo \<Rightarrow> pyval" where
  "to_dict self =
     DictV [(''id'', id' self),
            (''title'', title self),
            (''description'', description self),
            (''completed'', completed self),
            (''priority'', (case priority self of PriorityV p \<Rightarrow> StrV (Priority_value p) | v \<Rightarrow> v)),
            (''category'', category self),
            (''due_date'', due_date self),
            (''created_at'', created_at self),
            (''completed_at'', completed_at self)]"

text \<open>
  \<^verbatim>\<open>Todo.from_dict\<close>. The argument is whatever the caller passes: \<^verbatim>\<open>data.copy()\<close>
  raises \<^verbatim>\<open>AttributeError\<close> on a value without that method; a list has it, and then
  either \<^verbatim>\<open>data_copy["priority"]\<close> or \<^verbatim>\<open>cls(**data_copy)\<close> raises \<^verbatim>\<open>TypeError\<close>.
\<close>

definition from_dict :: "factories \<Rightarrow> pyval \<Rightarrow> pyerr + Todo" where
  "from_dict env data =
     (case data of
        DictV data_copy \<Rightarrow>
          (case map_of data_copy ''priority'' of
             Some v \<Rightarrow>
               (case as_str v of
                  Some s \<Rightarrow>
                    (case Priority_call s of
                       Inl e \<Rightarrow> Inl e
                     | Inr p \<Rightarrow> Todo_init env (AList.update ''priority'' (PriorityV p) data_copy))
                | None \<Rightarrow> Todo_init env data_copy)
           | None \<Rightarrow> Todo_init env data_copy)
      | ListV xs \<Rightarrow> Inl TypeError
      | _ \<Rightarrow> Inl AttributeError)"

text \<open>A record whose fields have the types that the dataclass declares.\<close>

definition is_str :: "pyval \<Rightarrow> bool" where
  "is_str v = (case v of StrV s \<Rightarrow> True | _ \<Rightarrow> False)"

definition is_optional_str :: "pyval \<Rightarrow> bool" where
  "is_optional_str v = (case v of StrV s \<Rightarrow> True | NoneV \<Rightarrow> True | _ \<Rightarrow> False)"

definition valid_Todo :: "Todo \<Rightarrow> bool" where
  "valid_Todo x =
     (is_str (id' x) \<and> is_str (title x) \<and> is_str (description x) \<and>
      (case completed x of BoolV b \<Rightarrow> True | _ \<Rightarrow> False) \<and>
      (case priority x of PriorityV p \<Rightarrow> True | _ \<Rightarrow> False) \<and>
      is_str (category x) \<and> is_optional_str (due_date x) \<and>
      is_str (created_at x) \<and> is_optional_str (completed_at x))"

text \<open>
  \<^verbatim>\<open>except (A, B, ...)\<close> catches an exception that is an instance of one of the
  classes; \<^verbatim>\<open>json.JSONDecodeError\<close> is a subclass of \<^verbatim>\<open>ValueError\<close>.
\<close>

fun is_instance :: "pyerr \<Rightarrow> pyerr \<Rightarrow> bool" where
  "is_instance JSONDecodeError ValueError = True"
| "is_instance e c = (e = c)"

definition caught :: "pyerr list \<Rightarrow> pyerr \<Rightarrow> bool" where
  "caught classes e = list_ex (is_instance e) classes"

text \<open>
  Python's \<^verbatim>\<open>datetime\<close>, as far as \<^verbatim>\<open>is_overdue\<close> uses it. A datetime is the
  reading of a clock, in seconds from the start of 1970 on that clock, and the offset
  of the clock from UTC when the object is offset-aware (\<open>None\<close> when it is
  offset-naive). \<^verbatim>\<open>datetime.now()\<close>, called with no time zone, is offset-naive.
\<close>

datatype datetime = Datetime (utcoffset: "int option") (seconds: int)

definition datetime_now :: "int \<Rightarrow> datetime" where
  "datetime_now clock = Datetime None clock"

text \<open>
  The comparison \<^verbatim>\<open>a < b\<close> of two datetimes: two offset-naive ones compare by their
  readings, two offset-aware ones by their readings brought to UTC, and one of each
  raises \<^verbatim>\<open>TypeError\<close> (can't compare offset-naive and offset-aware datetimes).
\<close>

fun datetime_lt :: "datetime \<Rightarrow> datetime \<Rightarrow> pyerr + bool" where
  "datetime_lt (Datetime None a) (Datetime None b) = Inr (a < b)"
| "datetime_lt (Datetime (Some oa) a) (Datetime (Some ob) b) = Inr (a - oa < b - ob)"
| "datetime_lt (Datetime None a) (Datetime (Some ob) b) = Inl TypeError"
| "datetime_lt (Datetime (Some oa) a) (Datetime None b) = Inl TypeError"

text \<open>
  The body of the \<^verbatim>\<open>try\<close> block of \<^verbatim>\<open>is_overdue\<close>. The parser
  \<^verbatim>\<open>datetime.fromisoformat\<close> is taken from outside: \<open>None\<close> is its \<^verbatim>\<open>ValueError\<close>
  on a string that is not in ISO format; on an argument that is not a \<^verbatim>\<open>str\<close> it
  raises \<^verbatim>\<open>TypeError\<close>. \<open>clock\<close> is the reading of the local clock at the call.
\<close>

definition is_overdue_try :: "(string \<Rightarrow> datetime option) \<Rightarrow> int \<Rightarrow> Todo \<Rightarrow> pyerr + bool" where
  "is_overdue_try fromisoformat clock self =
     (case as_str (due_date self) of
        None \<Rightarrow> Inl TypeError
      | Some s \<Rightarrow>
          (case fromisoformat s of
             None \<Rightarrow> Inl ValueError
           | Some due \<Rightarrow> datetime_lt due (datetime_now clock)))"

text \<open>The property \<^verbatim>\<open>Todo.is_overdue\<close>.\<close>

definition is_overdue :: "(string \<Rightarrow> datetime option) \<Rightarrow> int \<Rightarrow> Todo \<Rightarrow> pyerr + bool" where
  "is_overdue fromisoformat clock self =
     (if truthy (completed self) \<or> \<not> truthy (due_date self) then Inr False
      else
        (case is_overdue_try fromisoformat clock self of
           Inr b \<Rightarrow> Inr b
         | Inl e \<Rightarrow> if caught [ValueError, TypeError] e then Inr False else Inl e))"

section \<open>The storage manager (\<^verbatim>\<open>storage.py\<close>)\<close>

text \<open>
  A path is its parent directory and its final component; the file system maps the
  path of a regular file to its text. Directories, permissions and failing devices are
  not modelled: \<^verbatim>\<open>mkdir(parents=True, exist_ok=True)\<close> changes nothing here, and
  \<^verbatim>\<open>open\<close> succeeds on every path that \<^verbatim>\<open>exists()\<close>.
\<close>

record path =
  parent :: string
  name :: string

type_synonym filesystem = "path \<rightharpoonup> string"

definition path_exists :: "filesystem \<Rightarrow> path \<Rightarrow> bool" where
  "path_exists fs p = (fs p \<noteq> None)"

text \<open>\<^verbatim>\<open>str.rfind\<close> of one character: the index of its last occurrence.\<close>

fun rfind :: "char \<Rightarrow> string \<Rightarrow> nat option" where
  "rfind c [] = None"
| "rfind c (x # xs) =
     (case rfind c xs of
        Some i \<Rightarrow> Some (Suc i)
      | None \<Rightarrow> if x = c then Some 0 else None)"

text \<open>
  \<^verbatim>\<open>PurePath.suffix\<close>: the final component from its last dot on, when that dot is
  neither its first nor its last character.
\<close>

definition suffix :: "string \<Rightarrow> string" where
  "suffix nm =
     (case rfind CHR ''.'' nm of
        Some i \<Rightarrow> if 0 < i \<and> i + 1 < length nm then drop i nm else []
      | None \<Rightarrow> [])"

text \<open>
  \<^verbatim>\<open>PurePath.with_suffix\<close>: the new suffix replaces the old one, or is appended when
  there is none; a path with an empty name raises \<^verbatim>\<open>ValueError\<close>.
\<close>

definition with_suffix :: "path \<Rightarrow> string \<Rightarrow> pyerr + path" where
  "with_suffix p suf =
     (if name p = [] then Inl ValueError
      else
        (let old_suffix = suffix (name p) in
         if old_suffix = [] then Inr (p\<lparr>name := name p @ suf\<rparr>)
         else Inr (p\<lparr>name := take (length (name p) - length old_suffix) (name p) @ suf\<rparr>)))"

text \<open>\<^verbatim>\<open>Path.rename\<close> on POSIX: a file at the target is replaced.\<close>

definition rename :: "path \<Rightarrow> path \<Rightarrow> filesystem \<Rightarrow> filesystem" where
  "rename src dst fs = (if src = dst then fs else (fs(dst := fs src))(src := None))"

text \<open>
  What the storage manager takes from its surroundings: \<^verbatim>\<open>json.load\<close> on the text of
  a file (\<open>None\<close>: it raises \<^verbatim>\<open>JSONDecodeError\<close>), \<^verbatim>\<open>json.dump\<close> with
  \<^verbatim>\<open>indent=2\<close>, and what the default factories return while the item at a given
  position of the file is built.
\<close>

record runtime =
  json_load :: "string \<Rightarrow> pyval option"
  json_dump :: "pyval \<Rightarrow> string"
  factories_at :: "nat \<Rightarrow> factories"

record TodoStorage =
  data_file :: path

text \<open>\<^verbatim>\<open>for item in data\<close>: the items of a list, the keys of a dictionary, the characters of a string.\<close>

fun py_iter :: "pyval \<Rightarrow> pyerr + pyval list" where
  "py_iter (ListV xs) = Inr xs"
| "py_iter (DictV d) = Inr (map (\<lambda>(k, v). StrV k) d)"
| "py_iter (StrV s) = Inr (map (\<lambda>c. StrV [c]) s)"
| "py_iter (PriorityV p) = Inr (map (\<lambda>c. StrV [c]) (Priority_value p))"
| "py_iter _ = Inl TypeError"

text \<open>\<^verbatim>\<open>[Todo.from_dict(item) for item in data]\<close>, from position \<open>i\<close> on: the first exception ends it.\<close>

fun from_dict_items :: "(nat \<Rightarrow> factories) \<Rightarrow> nat \<Rightarrow> pyval list \<Rightarrow> pyerr + Todo list" where
  "from_dict_items envs i [] = Inr []"
| "from_dict_items envs i (item # items) =
     (case from_dict (envs i) item of
        Inl e \<Rightarrow> Inl e
      | Inr todo \<Rightarrow>
          (case from_dict_items envs (Suc i) items of
             Inl e \<Rightarrow> Inl e
           | Inr todos \<Rightarrow> Inr (todo # todos)))"

text \<open>The body of the \<^verbatim>\<open>try\<close> block of \<^verbatim>\<open>TodoStorage.load\<close>, on the text of the file.\<close>

definition read_todos :: "runtime \<Rightarrow> string \<Rightarrow> pyerr + Todo list" where
  "read_todos rt text =
     (case json_load rt text of
        None \<Rightarrow> Inl JSONDecodeError
      | Some data \<Rightarrow>
          (case py_iter data of
             Inl e \<Rightarrow> Inl e
           | Inr items \<Rightarrow> from_dict_items (factories_at rt) 0 items))"

text \<open>\<^verbatim>\<open>TodoStorage.load\<close>: the result and the file system it leaves.\<close>

definition load :: "runtime \<Rightarrow> TodoStorage \<Rightarrow> filesystem \<Rightarrow> pyerr + (Todo list \<times> filesystem)" where
  "load rt self fs =
     (if \<not> path_exists fs (data_file self) then Inr ([], fs)
      else
        (case read_todos rt (the (fs (data_file self))) of
           Inr todos \<Rightarrow> Inr (todos, fs)
         | Inl e \<Rightarrow>
             if caught [JSONDecodeError, KeyError, ValueError] e then
               (case with_suffix (data_file self) ''.json.bak'' of
                  Inl e' \<Rightarrow> Inl e'
                | Inr backup \<Rightarrow>
                    Inr ([], if path_exists fs (data_file self)
                             then rename (data_file self) backup fs else fs))
             else Inl e))"

text \<open>\<^verbatim>\<open>TodoStorage.save\<close>.\<close>

definition save :: "runtime \<Rightarrow> TodoStorage \<Rightarrow> Todo list \<Rightarrow> filesystem \<Rightarrow> filesystem" where
  "save rt self todos fs = fs(data_file self \<mapsto> json_dump rt (ListV (map to_dict todos)))"

text \<open>\<^verbatim>\<open>TodoStorage.add\<close>.\<close>

definition add :: "runtime \<Rightarrow> TodoStorage \<Rightarrow> Todo \<Rightarrow> filesystem \<Rightarrow> pyerr + filesystem" where
  "add rt self todo fs =
     (case load rt self fs of
        Inl e \<Rightarrow> Inl e
      | Inr (todos, fs1) \<Rightarrow> Inr (save rt self (todos @ [todo]) fs1))"

text \<open>
  The search that \<^verbatim>\<open>get\<close>, \<^verbatim>\<open>update\<close> and \<^verbatim>\<open>delete\<close> share,
  \<^verbatim>\<open>for i, t in enumerate(todos): if t.id == key: ...\<close> with a \<^verbatim>\<open>return\<close> in the
  branch: the first position, counted from \<open>i\<close>, whose item has the id.
\<close>

fun first_with_id :: "pyval \<Rightarrow> nat \<Rightarrow> Todo list \<Rightarrow> nat option" where
  "first_with_id key i [] = None"
| "first_with_id key i (t # ts) =
     (if py_eq (id' t) key then Some i else first_with_id key (Suc i) ts)"

text \<open>\<^verbatim>\<open>TodoStorage.get\<close>.\<close>

definition get :: "runtime \<Rightarrow> TodoStorage \<Rightarrow> pyval \<Rightarrow> filesystem \<Rightarrow> pyerr + (Todo option \<times> filesystem)" where
  "get rt self todo_id fs =
     (case load rt self fs of
        Inl e \<Rightarrow> Inl e
      | Inr (todos, fs1) \<Rightarrow>
          (case first_with_id todo_id 0 todos of
             Some i \<Rightarrow> Inr (Some (todos ! i), fs1)
           | None \<Rightarrow> Inr (None, fs1)))"

text \<open>\<^verbatim>\<open>TodoStorage.update\<close>.\<close>

definition update :: "runtime \<Rightarrow> TodoStorage \<Rightarrow> Todo \<Rightarrow> filesystem \<Rightarrow> pyerr + (bool \<times> filesystem)" where
  "update rt self todo fs =
     (case load rt self fs of
        Inl e \<Rightarrow> Inl e
      | Inr (todos, fs1) \<Rightarrow>
          (case first_with_id (id' todo) 0 todos of
             Some i \<Rightarrow> Inr (True, save rt self (todos[i := todo]) fs1)
           | None \<Rightarrow> Inr (False, fs1)))"

text \<open>\<^verbatim>\<open>list.pop(i)\<close> at a position of the list.\<close>

definition pop :: "nat \<Rightarrow> 'a list \<Rightarrow> 'a list" where
  "pop i xs = take i xs @ drop (Suc i) xs"

text \<open>\<^verbatim>\<open>TodoStorage.delete\<close>.\<close>

definition delete :: "runtime \<Rightarrow> TodoStorage \<Rightarrow> pyval \<Rightarrow> filesystem \<Rightarrow> pyerr + (bool \<times> filesystem)" where
  "delete rt self todo_id fs =
     (case load rt self fs of
        Inl e \<Rightarrow> Inl e
      | Inr (todos, fs1) \<Rightarrow>
          (case first_with_id todo_id 0 todos of
             Some i \<Rightarrow> Inr (True, save rt self (pop i todos) fs1)
           | None \<Rightarrow> Inr (False, fs1)))"

text \<open>\<^verbatim>\<open>TodoStorage.clear_completed\<close>.\<close>

definition clear_completed :: "runtime \<Rightarrow> TodoStorage \<Rightarrow> filesystem \<Rightarrow> pyerr + (int \<times> filesystem)" where
  "clear_completed rt self fs =
     (case load rt self fs of
        Inl e \<Rightarrow> Inl e
      | Inr (todos, fs1) \<Rightarrow>
          (let initial_count = int (length todos);
               todos' = filter (\<lambda>todo. \<not> truthy (completed todo)) todos
           in Inr (initial_count - int (length todos'), save rt self todos' fs1)))"

section \<open>Serialisation and deserialisation\<close>

lemma Priority_call_value: "Priority_call (Priority_value p) = Inr p"
  by (cases p) (simp_all add: Priority_call_def)

lemma Priority_call_invalid:
  "s \<notin> {''low'', ''medium'', ''high''} \<Longrightarrow> Priority_call s = Inl ValueError"
  by (simp add: Priority_call_def)

lemma Todo_init_to_dict:
  assumes "priority x = PriorityV p"
  shows "Todo_init env
           [(''id'', id' x), (''title'', title x), (''description'', description x),
            (''completed'', completed x), (''priority'', PriorityV p),
            (''category'', category x), (''due_date'', due_date x),
            (''created_at'', created_at x), (''completed_at'', completed_at x)] = Inr x"
  using assms by (simp add: Todo_init_def Todo_fields_def kwarg_def)

lemma from_dict_to_dict:
  assumes "valid_Todo x"
  shows "from_dict env (to_dict x) = Inr x"
proof -
  from assms obtain p where p: "priority x = PriorityV p"
    by (auto simp: valid_Todo_def split: pyval.splits)
  have "from_dict env (to_dict x) =
          Todo_init env
            [(''id'', id' x), (''title'', title x), (''description'', description x),
             (''completed'', completed x), (''priority'', PriorityV p),
             (''category'', category x), (''due_date'', due_date x),
             (''created_at'', created_at x), (''completed_at'', completed_at x)]"
    by (simp add: from_dict_def to_dict_def p Priority_call_value)
  with p show ?thesis
    by (simp add: Todo_init_to_dict)
qed

text \<open>
  C2. A record with the declared field types, in particular with a member of
  \<open>Priority\<close> as its priority, comes back from \<open>from_dict (to_dict x)\<close> equal field
  for field; a \<open>due_date\<close> or \<open>completed_at\<close> that is \<open>None\<close> is \<open>None\<close> afterwards.
\<close>

theorem from_dict_to_dict_roundtrip:
  assumes "valid_Todo x"
  shows "from_dict env (to_dict x) = Inr x"
  using assms by (rule from_dict_to_dict)

theorem from_dict_to_dict_roundtrip_witness:
  "valid_Todo \<lparr> id' = StrV ''a1'', title = StrV ''Buy milk'', description = StrV '''',
       completed = BoolV False, priority = PriorityV HIGH, category = StrV '''',
       due_date = NoneV, created_at = StrV ''2024-01-01T10:00:00'', completed_at = NoneV \<rparr>
   \<and> from_dict \<lparr> uuid4 = ''u'', now_isoformat = ''n'' \<rparr>
        (to_dict \<lparr> id' = StrV ''a1'', title = StrV ''Buy milk'', description = StrV '''',
           completed = BoolV False, priority = PriorityV HIGH, category = StrV '''',
           due_date = NoneV, created_at = StrV ''2024-01-01T10:00:00'', completed_at = NoneV \<rparr>)
      = Inr \<lparr> id' = StrV ''a1'', title = StrV ''Buy milk'', description = StrV '''',
           completed = BoolV False, priority = PriorityV HIGH, category = StrV '''',
           due_date = NoneV, created_at = StrV ''2024-01-01T10:00:00'', completed_at = NoneV \<rparr>"
proof -
  have v: "valid_Todo \<lparr> id' = StrV ''a1'', title = StrV ''Buy milk'', description = StrV '''',
       completed = BoolV False, priority = PriorityV HIGH, category = StrV '''',
       due_date = NoneV, created_at = StrV ''2024-01-01T10:00:00'', completed_at = NoneV \<rparr>"
    by (simp add: valid_Todo_def is_str_def is_optional_str_def)
  show ?thesis
    using v from_dict_to_dict_roundtrip [OF v, of "\<lparr> uuid4 = ''u'', now_isoformat = ''n'' \<rparr>"]
    by simp
qed

text \<open>
  C3. When the key \<open>priority\<close> of the mapping holds a string that is none of
  \<open>low\<close>, \<open>medium\<close>, \<open>high\<close>, \<open>from_dict\<close> raises the \<open>ValueError\<close> of the call
  \<open>Priority(...)\<close> (the invalid-priority error); it returns no record, whatever else
  the mapping holds.
\<close>

theorem from_dict_invalid_priority:
  assumes "map_of d ''priority'' = Some (StrV s)"
    and "s \<notin> {''low'', ''medium'', ''high''}"
  shows "from_dict env (DictV d) = Inl ValueError"
  using assms by (simp add: from_dict_def Priority_call_invalid)

theorem from_dict_invalid_priority_witness:
  "map_of [(''title'', StrV ''x''), (''priority'', StrV ''urgent'')] ''priority''
     = Some (StrV ''urgent'')
   \<and> ''urgent'' \<notin> {''low'', ''medium'', ''high''}
   \<and> from_dict \<lparr> uuid4 = ''u'', now_isoformat = ''n'' \<rparr>
        (DictV [(''title'', StrV ''x''), (''priority'', StrV ''urgent'')]) = Inl ValueError"
proof -
  have m: "map_of [(''title'', StrV ''x''), (''priority'', StrV ''urgent'')] ''priority''
     = Some (StrV ''urgent'')"
    by simp
  have n: "''urgent'' \<notin> {''low'', ''medium'', ''high''}"
    by simp
  show ?thesis
    using m n from_dict_invalid_priority [OF m n, of "\<lparr> uuid4 = ''u'', now_isoformat = ''n'' \<rparr>"]
    by blast
qed

lemma kwarg_update_other:
  "k \<noteq> k' \<Longrightarrow> kwarg (AList.update k' v d) k dflt = kwarg d k dflt"
  by (simp add: kwarg_def update_conv')

lemma kwarg_update_same:
  "kwarg (AList.update k v d) k dflt = v"
  by (simp add: kwarg_def update_conv')

lemma from_dict_StrV:
  "map_of d ''priority'' = Some (StrV s) \<Longrightarrow> Priority_call s = Inr p \<Longrightarrow>
   from_dict env (DictV d) = Todo_init env (AList.update ''priority'' (PriorityV p) d)"
  by (simp add: from_dict_def)

lemma from_dict_PriorityV:
  "map_of d ''priority'' = Some (PriorityV p) \<Longrightarrow>
   from_dict env (DictV d) = Todo_init env (AList.update ''priority'' (PriorityV p) d)"
  by (simp add: from_dict_def Priority_call_value)

lemma from_dict_other:
  "map_of d ''priority'' = None \<or> (\<exists>v. map_of d ''priority'' = Some v \<and> as_str v = None) \<Longrightarrow>
   from_dict env (DictV d) = Todo_init env d"
  by (auto simp: from_dict_def)

lemma Priority_call_valid:
  "s \<in> {''low'', ''medium'', ''high''} \<Longrightarrow> \<exists>p. Priority_call s = Inr p"
  by (auto simp: Priority_call_def)

lemma Todo_init_update_priority:
  assumes "map_of d ''priority'' = Some v"
  shows "Todo_init env (AList.update ''priority'' (PriorityV p) d) =
         (if list_all (\<lambda>(k, v). k \<in> set Todo_fields) d then
            Inr \<lparr> id' = kwarg d ''id'' (StrV (uuid4 env)),
                  title = kwarg d ''title'' (StrV ''''),
                  description = kwarg d ''description'' (StrV ''''),
                  completed = kwarg d ''completed'' (BoolV False),
                  priority = PriorityV p,
                  category = kwarg d ''category'' (StrV ''''),
                  due_date = kwarg d ''due_date'' NoneV,
                  created_at = kwarg d ''created_at'' (StrV (now_isoformat env)),
                  completed_at = kwarg d ''completed_at'' NoneV \<rparr>
          else Inl TypeError)"
proof -
  let ?P = "\<lambda>(k, v). k \<in> set Todo_fields"
  have in_fields: "?P (''priority'', PriorityV p)"
    by (simp add: Todo_fields_def)
  have keys: "list_all ?P (AList.update ''priority'' (PriorityV p) d) = list_all ?P d"
    using assms in_fields
    by (induction d) (auto split: if_splits)
  show ?thesis
    unfolding Todo_init_def keys
    by (simp add: kwarg_update_other kwarg_update_same)
qed

text \<open>
  C4 (as the code has it). A mapping whose \<open>priority\<close>, when a string, is one of the
  three values: if every key is a field of \<open>Todo\<close>, \<open>from_dict\<close> returns a record
  in which each field is the value of its key, or the default of the field when the key
  is missing (\<open>kwarg\<close>); the priority is \<open>MEDIUM\<close> when the key is missing, the
  member of \<open>Priority\<close> with that value when the key holds a string, and the value
  of the key as it is otherwise. If some key is not a field, \<open>from_dict\<close> raises
  \<open>TypeError\<close>.
\<close>

theorem from_dict_defaults:
  assumes prio: "\<forall>s. map_of d ''priority'' = Some (StrV s) \<longrightarrow> s \<in> {''low'', ''medium'', ''high''}"
  shows "(list_all (\<lambda>(k, v). k \<in> set Todo_fields) d \<longrightarrow>
            (\<exists>t. from_dict env (DictV d) = Inr t \<and>
               id' t = kwarg d ''id'' (StrV (uuid4 env)) \<and>
               title t = kwarg d ''title'' (StrV '''') \<and>
               description t = kwarg d ''description'' (StrV '''') \<and>
               completed t = kwarg d ''completed'' (BoolV False) \<and>
               (map_of d ''priority'' = None \<longrightarrow> priority t = PriorityV MEDIUM) \<and>
               (\<forall>s p. map_of d ''priority'' = Some (StrV s) \<longrightarrow> Priority_call s = Inr p
                    \<longrightarrow> priority t = PriorityV p) \<and>
               (\<forall>v. map_of d ''priority'' = Some v \<longrightarrow> (\<forall>s. v \<noteq> StrV s)
                    \<longrightarrow> priority t = v) \<and>
               category t = kwarg d ''category'' (StrV '''') \<and>
               due_date t = kwarg d ''due_date'' NoneV \<and>
               created_at t = kwarg d ''created_at'' (StrV (now_isoformat env)) \<and>
               completed_at t = kwarg d ''completed_at'' NoneV))
         \<and> (\<not> list_all (\<lambda>(k, v). k \<in> set Todo_fields) d \<longrightarrow>
              from_dict env (DictV d) = Inl TypeError)"
proof -
  consider (str) s where "map_of d ''priority'' = Some (StrV s)"
    | (member) p where "map_of d ''priority'' = Some (PriorityV p)"
    | (other) "map_of d ''priority'' = None \<or> (\<exists>v. map_of d ''priority'' = Some v \<and> as_str v = None)"
  proof (cases "map_of d ''priority''")
    case None
    then show ?thesis using other by simp
  next
    case (Some v)
    then show ?thesis using str member other by (cases v) auto
  qed
  then show ?thesis
  proof cases
    case str
    with prio obtain p where p: "Priority_call s = Inr p"
      using Priority_call_valid by blast
    show ?thesis
      unfolding from_dict_StrV [OF str p] Todo_init_update_priority [OF str]
      using str p by auto
  next
    case member
    show ?thesis
      unfolding from_dict_PriorityV [OF member] Todo_init_update_priority [OF member]
      using member by auto
  next
    case other
    then have "\<forall>s. map_of d ''priority'' \<noteq> Some (StrV s)"
      by auto
    then show ?thesis
      unfolding from_dict_other [OF other] Todo_init_def
      by (auto simp: kwarg_def)
  qed
qed

theorem from_dict_defaults_witness:
  "(\<exists>t. from_dict \<lparr> uuid4 = ''u'', now_isoformat = ''n'' \<rparr>
          (DictV [(''title'', StrV ''Buy milk''), (''priority'', StrV ''high'')]) = Inr t \<and>
        id' t = StrV ''u'' \<and> title t = StrV ''Buy milk'' \<and> description t = StrV '''' \<and>
        completed t = BoolV False \<and> priority t = PriorityV HIGH \<and> category t = StrV '''' \<and>
        due_date t = NoneV \<and> created_at t = StrV ''n'' \<and> completed_at t = NoneV)
   \<and> (\<exists>t. from_dict \<lparr> uuid4 = ''u'', now_isoformat = ''n'' \<rparr>
          (DictV [(''id'', StrV ''a1''), (''priority'', IntV 5)]) = Inr t \<and>
        id' t = StrV ''a1'' \<and> title t = StrV '''' \<and> priority t = IntV 5 \<and>
        created_at t = StrV ''n'')
   \<and> from_dict \<lparr> uuid4 = ''u'', now_isoformat = ''n'' \<rparr>
        (DictV [(''title'', StrV ''Buy milk''), (''colour'', StrV ''red'')]) = Inl TypeError"
proof -
  have a: "\<forall>s. map_of [(''title'', StrV ''Buy milk''), (''priority'', StrV ''high'')] ''priority''
             = Some (StrV s) \<longrightarrow> s \<in> {''low'', ''medium'', ''high''}"
    by simp
  have b: "\<forall>s. map_of [(''title'', StrV ''Buy milk''), (''colour'', StrV ''red'')] ''priority''
             = Some (StrV s) \<longrightarrow> s \<in> {''low'', ''medium'', ''high''}"
    by simp
  have c: "\<forall>s. map_of [(''id'', StrV ''a1''), (''priority'', IntV 5)] ''priority''
             = Some (StrV s) \<longrightarrow> s \<in> {''low'', ''medium'', ''high''}"
    by simp
  have h: "Priority_call ''high'' = Inr HIGH"
    by (simp add: Priority_call_def)
  show ?thesis
    using from_dict_defaults [OF a, of "\<lparr> uuid4 = ''u'', now_isoformat = ''n'' \<rparr>"]
      from_dict_defaults [OF b, of "\<lparr> uuid4 = ''u'', now_isoformat = ''n'' \<rparr>"]
      from_dict_defaults [OF c, of "\<lparr> uuid4 = ''u'', now_isoformat = ''n'' \<rparr>"] h
    by (auto simp: kwarg_def Todo_fields_def)
qed

text \<open>
  A mapping with a key that is not a field of \<open>Todo\<close> is not deserialised with
  defaults: the constructor raises \<open>TypeError\<close>.
\<close>

theorem from_dict_unknown_key_counterexample:
  "from_dict \<lparr> uuid4 = ''u'', now_isoformat = ''n'' \<rparr>
     (DictV [(''title'', StrV ''Buy milk''), (''colour'', StrV ''red'')]) = Inl TypeError"
  by (simp add: from_dict_def Todo_init_def Todo_fields_def)

lemma is_overdue_try_error:
  "is_overdue_try parse clock t = Inl e \<Longrightarrow> e = TypeError \<or> e = ValueError"
proof -
  have lt: "datetime_lt a b = Inl e \<Longrightarrow> e = TypeError" for a b
    by (cases "(a, b)" rule: datetime_lt.cases) auto
  assume "is_overdue_try parse clock t = Inl e"
  then show ?thesis
    by (auto simp: is_overdue_try_def split: option.splits dest: lt)
qed

lemma is_overdue_returns: "\<exists>b. is_overdue parse clock t = Inr b"
proof (cases "is_overdue_try parse clock t")
  case (Inl e)
  with is_overdue_try_error [OF Inl] show ?thesis
    by (auto simp: is_overdue_def caught_def)
next
  case (Inr b)
  then show ?thesis by (auto simp: is_overdue_def)
qed

lemma datetime_lt_now_True:
  "datetime_lt due (datetime_now clock) = Inr True \<longleftrightarrow> (\<exists>w. due = Datetime None w \<and> w < clock)"
  by (cases "(due, datetime_now clock)" rule: datetime_lt.cases) (auto simp: datetime_now_def)

lemma datetime_lt_now_aware:
  "datetime_lt (Datetime (Some off) w) (datetime_now clock) = Inl TypeError"
  by (simp add: datetime_now_def)

text \<open>
  C5 (as the code has it). With a parser that rejects the empty string, as
  \<^verbatim>\<open>fromisoformat\<close> does: \<open>is_overdue\<close> is true exactly when \<open>completed\<close> tests
  false and \<open>due_date\<close> is a string that parses to an offset-naive datetime whose
  reading is strictly before the reading of the local clock. It is false when
  \<open>due_date\<close> is \<open>None\<close>, when it does not parse, and when it parses to an
  offset-aware datetime, whose comparison with \<^verbatim>\<open>datetime.now()\<close> raises the
  \<open>TypeError\<close> that the handler swallows. It returns a truth value, never an
  exception, on every record.
\<close>

theorem is_overdue_iff:
  assumes empty: "parse [] = None"
  shows "(is_overdue parse clock t = Inr True \<longleftrightarrow>
            \<not> truthy (completed t) \<and>
            (\<exists>s w. as_str (due_date t) = Some s \<and> parse s = Some (Datetime None w) \<and> w < clock))
       \<and> (due_date t = NoneV \<longrightarrow> is_overdue parse clock t = Inr False)
       \<and> ((\<forall>s. as_str (due_date t) = Some s \<longrightarrow> parse s = None) \<longrightarrow>
             is_overdue parse clock t = Inr False)
       \<and> (\<forall>s off w. as_str (due_date t) = Some s \<longrightarrow> parse s = Some (Datetime (Some off) w) \<longrightarrow>
             is_overdue parse clock t = Inr False)
       \<and> (\<exists>b. is_overdue parse clock t = Inr b)"
proof (intro conjI impI allI)
  show "is_overdue parse clock t = Inr True \<longleftrightarrow>
            \<not> truthy (completed t) \<and>
            (\<exists>s w. as_str (due_date t) = Some s \<and> parse s = Some (Datetime None w) \<and> w < clock)"
  proof
    assume a: "is_overdue parse clock t = Inr True"
    then have c: "\<not> truthy (completed t)" and tr: "is_overdue_try parse clock t = Inr True"
      by (auto simp: is_overdue_def caught_def split: if_splits sum.splits)
    from tr obtain s due where s: "as_str (due_date t) = Some s" "parse s = Some due"
        "datetime_lt due (datetime_now clock) = Inr True"
      by (auto simp: is_overdue_try_def split: option.splits)
    from s(3) obtain w where "due = Datetime None w" "w < clock"
      unfolding datetime_lt_now_True by blast
    with c s show "\<not> truthy (completed t) \<and>
            (\<exists>s w. as_str (due_date t) = Some s \<and> parse s = Some (Datetime None w) \<and> w < clock)"
      by blast
  next
    assume r: "\<not> truthy (completed t) \<and>
            (\<exists>s w. as_str (due_date t) = Some s \<and> parse s = Some (Datetime None w) \<and> w < clock)"
    then obtain s w where s: "as_str (due_date t) = Some s" "parse s = Some (Datetime None w)"
        "w < clock"
      by blast
    from s(2) empty have "s \<noteq> []" by auto
    with s(1) have "truthy (due_date t)"
      by (cases "due_date t") auto
    with r s show "is_overdue parse clock t = Inr True"
      by (simp add: is_overdue_def is_overdue_try_def datetime_now_def)
  qed
next
  assume "due_date t = NoneV"
  then show "is_overdue parse clock t = Inr False"
    by (simp add: is_overdue_def)
next
  assume "\<forall>s. as_str (due_date t) = Some s \<longrightarrow> parse s = None"
  then show "is_overdue parse clock t = Inr False"
    by (auto simp: is_overdue_def is_overdue_try_def caught_def split: option.splits)
next
  fix s off w
  assume "as_str (due_date t) = Some s" "parse s = Some (Datetime (Some off) w)"
  then show "is_overdue parse clock t = Inr False"
    by (simp add: is_overdue_def is_overdue_try_def datetime_lt_now_aware caught_def)
next
  show "\<exists>b. is_overdue parse clock t = Inr b"
    by (rule is_overdue_returns)
qed

theorem is_overdue_iff_witness:
  "is_overdue (\<lambda>s. if s = ''2000-01-01'' then Some (Datetime None 946684800) else None) 1700000000
     \<lparr> id' = StrV ''a1'', title = StrV ''Buy milk'', description = StrV '''',
           completed = BoolV False, priority = PriorityV HIGH, category = StrV '''',
           due_date = StrV ''2000-01-01'', created_at = StrV ''1999-12-01T10:00:00'', completed_at = NoneV \<rparr>
     = Inr True
   \<and> is_overdue (\<lambda>s. if s = ''2000-01-01'' then Some (Datetime None 946684800) else None) 1700000000
     \<lparr> id' = StrV ''a1'', title = StrV ''Buy milk'', description = StrV '''',
           completed = BoolV False, priority = PriorityV HIGH, category = StrV '''',
           due_date = StrV ''next week'', created_at = StrV ''1999-12-01T10:00:00'', completed_at = NoneV \<rparr>
     = Inr False"
proof -
  let ?parse = "\<lambda>s. if s = ''2000-01-01'' then Some (Datetime None 946684800) else None"
  have e: "?parse [] = None"
    by simp
  show ?thesis
    using is_overdue_iff [of ?parse 1700000000 "\<lparr> id' = StrV ''a1'', title = StrV ''Buy milk'', description = StrV '''',
           completed = BoolV False, priority = PriorityV HIGH, category = StrV '''',
           due_date = StrV ''2000-01-01'', created_at = StrV ''1999-12-01T10:00:00'', completed_at = NoneV \<rparr>", OF e]
      is_overdue_iff [of ?parse 1700000000 "\<lparr> id' = StrV ''a1'', title = StrV ''Buy milk'', description = StrV '''',
           completed = BoolV False, priority = PriorityV HIGH, category = StrV '''',
           due_date = StrV ''next week'', created_at = StrV ''1999-12-01T10:00:00'', completed_at = NoneV \<rparr>", OF e]
    by simp
qed

text \<open>
  The due date \<^verbatim>\<open>2000-01-01T00:00:00+00:00\<close>, on a record that is not completed, at a
  local clock reading in 2023: the string parses to an offset-aware datetime, midnight
  UTC on the first day of 2000, which is before the current moment in every time zone,
  and \<open>is_overdue\<close> is false.
\<close>

theorem is_overdue_aware_counterexample:
  "(let parse = (\<lambda>s. if s = ''2000-01-01T00:00:00+00:00''
                      then Some (Datetime (Some 0) 946684800) else None);
        t = \<lparr> id' = StrV ''a1'', title = StrV ''Buy milk'', description = StrV '''',
              completed = BoolV False, priority = PriorityV HIGH, category = StrV '''',
              due_date = StrV ''2000-01-01T00:00:00+00:00'',
              created_at = StrV ''1999-12-01T10:00:00'', completed_at = NoneV \<rparr>
    in \<not> truthy (completed t)
     \<and> as_str (due_date t) = Some ''2000-01-01T00:00:00+00:00''
     \<and> parse ''2000-01-01T00:00:00+00:00'' = Some (Datetime (Some 0) 946684800)
     \<and> (946684800 :: int) + 14 * 3600 < 1700000000 - 14 * 3600
     \<and> is_overdue parse 1700000000 t = Inr False)"
  by (simp add: is_overdue_def is_overdue_try_def datetime_now_def caught_def)

section \<open>Loading, searching and rewriting the items file\<close>

lemma first_with_id_Some:
  "first_with_id key i ts = Some j \<Longrightarrow>
     i \<le> j \<and> j - i < length ts \<and> py_eq (id' (ts ! (j - i))) key \<and>
     (\<forall>m<j - i. \<not> py_eq (id' (ts ! m)) key)"
proof (induction ts arbitrary: i)
  case Nil
  then show ?case by simp
next
  case (Cons t ts)
  show ?case
  proof (cases "py_eq (id' t) key")
    case True
    with Cons.prems show ?thesis by simp
  next
    case False
    with Cons.prems have r: "first_with_id key (Suc i) ts = Some j" by simp
    from Cons.IH [OF r] have ih: "Suc i \<le> j" "j - Suc i < length ts"
      "py_eq (id' (ts ! (j - Suc i))) key" "\<forall>m<j - Suc i. \<not> py_eq (id' (ts ! m)) key"
      by auto
    from ih(1) have e: "j - i = Suc (j - Suc i)" by arith
    have "\<forall>m<j - i. \<not> py_eq (id' ((t # ts) ! m)) key"
    proof (intro allI impI)
      fix m assume "m < j - i"
      with e ih(4) False show "\<not> py_eq (id' ((t # ts) ! m)) key"
        by (cases m) auto
    qed
    with ih e show ?thesis by auto
  qed
qed

lemma first_with_id_None:
  "first_with_id key i ts = None \<longleftrightarrow> (\<forall>t\<in>set ts. \<not> py_eq (id' t) key)"
  by (induction ts arbitrary: i) auto

lemma first_with_id_None_nth:
  "first_with_id key i ts = None \<longleftrightarrow> (\<forall>m<length ts. \<not> py_eq (id' (ts ! m)) key)"
  unfolding first_with_id_None by (simp add: all_set_conv_all_nth)

lemma first_with_id_append:
  "\<forall>y\<in>set pre. \<not> py_eq (id' y) key \<Longrightarrow> py_eq (id' x) key \<Longrightarrow>
   first_with_id key i (pre @ x # post) = Some (i + length pre)"
  by (induction pre arbitrary: i) auto

lemma first_with_id_split:
  assumes "todos = pre @ x # post" and "\<forall>y\<in>set pre. \<not> py_eq (id' y) key" and "py_eq (id' x) key"
  shows "first_with_id key 0 todos = Some (length pre)"
  using assms first_with_id_append [of pre key x 0 post] by simp

lemma load_absent: "fs (data_file self) = None \<Longrightarrow> load rt self fs = Inr ([], fs)"
  by (simp add: load_def path_exists_def)

lemma load_present:
  "fs (data_file self) = Some text \<Longrightarrow> read_todos rt text = Inr todos \<Longrightarrow>
   load rt self fs = Inr (todos, fs)"
  by (simp add: load_def path_exists_def)

lemma load_raises:
  "fs (data_file self) = Some text \<Longrightarrow> read_todos rt text = Inl e \<Longrightarrow>
   \<not> caught [JSONDecodeError, KeyError, ValueError] e \<Longrightarrow> load rt self fs = Inl e"
  by (simp add: load_def path_exists_def)

lemma load_recovers:
  "fs (data_file self) = Some text \<Longrightarrow> read_todos rt text = Inl e \<Longrightarrow>
   caught [JSONDecodeError, KeyError, ValueError] e \<Longrightarrow>
   with_suffix (data_file self) ''.json.bak'' = Inr backup \<Longrightarrow>
   load rt self fs = Inr ([], rename (data_file self) backup fs)"
  by (simp add: load_def path_exists_def)

lemma load_file_not_written:
  assumes "load rt self fs = Inr (todos, fs1)"
  shows "fs1 (data_file self) = fs (data_file self) \<or> fs1 (data_file self) = None"
  using assms
  by (auto simp: load_def path_exists_def rename_def split: if_splits sum.splits)

lemma save_eq:
  "save rt self todos fs = fs(data_file self \<mapsto> json_dump rt (ListV (map to_dict todos)))"
  by (simp add: save_def)

lemma from_dict_items_to_dict:
  "\<forall>t\<in>set todos. valid_Todo t \<Longrightarrow> from_dict_items envs i (map to_dict todos) = Inr todos"
  by (induction todos arbitrary: i) (simp_all add: from_dict_to_dict)

lemma load_serialised:
  assumes "fs (data_file self) = Some body"
    and "json_load rt body = Some (ListV (map to_dict todos))"
    and "\<forall>t\<in>set todos. valid_Todo t"
  shows "load rt self fs = Inr (todos, fs)"
proof -
  have "read_todos rt body = Inr todos"
    using assms(2,3) by (simp add: read_todos_def from_dict_items_to_dict)
  with assms(1) show ?thesis
    by (rule load_present [where fs = fs and self = self])
qed

lemma clear_completed_eq:
  assumes "load rt self fs = Inr (todos, fs1)"
  shows "clear_completed rt self fs =
           Inr (int (length (filter (\<lambda>t. truthy (completed t)) todos)),
                fs1(data_file self \<mapsto>
                  json_dump rt (ListV (map to_dict (filter (\<lambda>t. \<not> truthy (completed t)) todos)))))"
proof -
  have "length todos =
          length (filter (\<lambda>t. truthy (completed t)) todos) +
          length (filter (\<lambda>t. \<not> truthy (completed t)) todos)"
    by (rule sum_length_filter_compl [symmetric])
  then have "int (length todos) - int (length (filter (\<lambda>t. \<not> truthy (completed t)) todos)) =
          int (length (filter (\<lambda>t. truthy (completed t)) todos))"
    by simp
  with assms show ?thesis
    by (simp add: clear_completed_def save_eq Let_def)
qed

lemma filter_bool_completed:
  assumes "\<forall>t\<in>set todos. \<exists>b. completed t = BoolV b"
  shows "filter (\<lambda>t. \<not> truthy (completed t)) todos = filter (\<lambda>t. completed t = BoolV False) todos"
    and "filter (\<lambda>t. truthy (completed t)) todos = filter (\<lambda>t. completed t = BoolV True) todos"
  using assms by (auto intro!: filter_cong)



text \<open>
  The backup of \<open>load\<close> is \<^verbatim>\<open>with_suffix(".json.bak")\<close>: the last suffix of the name is
  replaced, so the backup of \<^verbatim>\<open>todos.json\<close> is \<^verbatim>\<open>todos.json.bak\<close>, and so is the backup of
  \<^verbatim>\<open>todos.txt\<close>.
\<close>

lemma with_suffix_todos_json:
  "with_suffix \<lparr> parent = d, name = ''todos.json'' \<rparr> ''.json.bak''
     = Inr \<lparr> parent = d, name = ''todos.json.bak'' \<rparr>"
  by (simp add: with_suffix_def suffix_def)

lemma with_suffix_todos_txt:
  "with_suffix \<lparr> parent = d, name = ''todos.txt'' \<rparr> ''.json.bak''
     = Inr \<lparr> parent = d, name = ''todos.json.bak'' \<rparr>"
  by (simp add: with_suffix_def suffix_def)

text \<open>
  C1. The items file holds a list with one object whose only key, \<open>foo\<close>, is not a
  field of \<open>Todo\<close>. The item fails deserialisation with \<open>TypeError\<close>, which the
  handler of \<open>load\<close> does not name: \<open>load\<close> raises it to the caller, returns no
  collection and takes no backup.
\<close>

theorem load_unknown_key_raises:
  assumes "fs (data_file self) = Some text"
    and "json_load rt text = Some (ListV [DictV [(''foo'', IntV 1)]])"
  shows "load rt self fs = Inl TypeError"
proof -
  have "read_todos rt text = Inl TypeError"
    using assms(2)
    by (simp add: read_todos_def from_dict_def Todo_init_def Todo_fields_def)
  with assms(1) show ?thesis
    by (simp add: load_raises caught_def)
qed

theorem load_unknown_key_raises_witness:
  "\<forall>text dump env.
     load \<lparr> json_load = (\<lambda>s. if s = text then Some (ListV [DictV [(''foo'', IntV 1)]]) else None),
            json_dump = dump, factories_at = env \<rparr>
          \<lparr> data_file = \<lparr> parent = ''/home/user/.todocli'', name = ''todos.json'' \<rparr> \<rparr>
          [\<lparr> parent = ''/home/user/.todocli'', name = ''todos.json'' \<rparr> \<mapsto> text]
     = Inl TypeError"
proof (intro allI)
  fix body :: string and dump :: "pyval \<Rightarrow> string" and env :: "nat \<Rightarrow> factories"
  let ?rt = "\<lparr> json_load = (\<lambda>s. if s = body then Some (ListV [DictV [(''foo'', IntV 1)]]) else None),
            json_dump = dump, factories_at = env \<rparr>"
  let ?self = "\<lparr> data_file = \<lparr> parent = ''/home/user/.todocli'', name = ''todos.json'' \<rparr> \<rparr>"
  let ?fs = "[\<lparr> parent = ''/home/user/.todocli'', name = ''todos.json'' \<rparr> \<mapsto> body]"
  have a: "?fs (data_file ?self) = Some body" by simp
  have b: "json_load ?rt body = Some (ListV [DictV [(''foo'', IntV 1)]])" by simp
  show "load ?rt ?self ?fs = Inl TypeError"
    using a b by (rule load_unknown_key_raises [where fs = ?fs and self = ?self and rt = ?rt])
qed

lemma first_with_id_first:
  assumes "i < length ts" and "py_eq (id' (ts ! i)) key"
    and "\<forall>j<i. \<not> py_eq (id' (ts ! j)) key"
  shows "first_with_id key 0 ts = Some i"
proof -
  have s: "ts = take i ts @ ts ! i # drop (Suc i) ts"
    using assms(1) by (rule id_take_nth_drop)
  have "\<forall>y\<in>set (take i ts). \<not> py_eq (id' y) key"
    using assms(1,3) by (auto simp: in_set_conv_nth)
  from first_with_id_split [OF s this assms(2)] assms(1) show ?thesis
    by simp
qed

lemma first_with_id_exists:
  assumes "\<exists>i<length ts. py_eq (id' ((ts :: Todo list) ! i)) key"
  shows "\<exists>i<length ts. py_eq (id' (ts ! i)) key \<and> (\<forall>j<i. \<not> py_eq (id' (ts ! j)) key)"
proof -
  from assms have "first_with_id key 0 ts \<noteq> None"
    unfolding first_with_id_None_nth by blast
  then obtain i where "first_with_id key 0 ts = Some i"
    by auto
  from first_with_id_Some [OF this] show ?thesis
    by auto
qed

text \<open>
  C6 (as the code has it). Let \<open>todos\<close> be the collection that \<open>load\<close> returns and
  \<open>fs1\<close> the file system it leaves. When \<open>i\<close> is the first position whose item has the
  id of \<open>u\<close>, \<open>update\<close> writes the serialised collection \<open>todos[i := u]\<close> to the
  items file and returns \<open>True\<close>: position \<open>i\<close> holds \<open>u\<close>, every other position
  holds what it held, and the length is the same. Such a first position exists
  whenever some item has the id. If no item has the id of \<open>u\<close>, \<open>update\<close> returns
  \<open>False\<close> and leaves \<open>fs1\<close>: the items file has the text it had, or is no longer
  there when \<open>load\<close> has moved it to its backup.
\<close>

theorem update_replaces_first_match:
  assumes "load rt self fs = Inr (todos, fs1)"
  shows "(\<forall>i<length todos. py_eq (id' (todos ! i)) (id' u) \<longrightarrow>
            (\<forall>j<i. \<not> py_eq (id' (todos ! j)) (id' u)) \<longrightarrow>
            update rt self u fs =
              Inr (True, fs1(data_file self \<mapsto> json_dump rt (ListV (map to_dict (todos[i := u]))))) \<and>
            (todos[i := u]) ! i = u \<and>
            (\<forall>j<length todos. j \<noteq> i \<longrightarrow> (todos[i := u]) ! j = todos ! j) \<and>
            length (todos[i := u]) = length todos)
       \<and> ((\<exists>i<length todos. py_eq (id' (todos ! i)) (id' u)) \<longrightarrow>
            (\<exists>i<length todos. py_eq (id' (todos ! i)) (id' u) \<and>
               (\<forall>j<i. \<not> py_eq (id' (todos ! j)) (id' u))))
       \<and> ((\<forall>i<length todos. \<not> py_eq (id' (todos ! i)) (id' u)) \<longrightarrow>
             update rt self u fs = Inr (False, fs1) \<and>
             (fs1 (data_file self) = fs (data_file self) \<or> fs1 (data_file self) = None))"
proof -
  have first: "update rt self u fs =
              Inr (True, fs1(data_file self \<mapsto> json_dump rt (ListV (map to_dict (todos[i := u]))))) \<and>
            (todos[i := u]) ! i = u \<and>
            (\<forall>j<length todos. j \<noteq> i \<longrightarrow> (todos[i := u]) ! j = todos ! j) \<and>
            length (todos[i := u]) = length todos"
    if i: "i < length todos" "py_eq (id' (todos ! i)) (id' u)"
      "\<forall>j<i. \<not> py_eq (id' (todos ! j)) (id' u)" for i
  proof -
    have f: "first_with_id (id' u) 0 todos = Some i"
      using i by (rule first_with_id_first)
    have "update rt self u fs =
          Inr (True, fs1(data_file self \<mapsto> json_dump rt (ListV (map to_dict (todos[i := u])))))"
      using assms f by (simp add: update_def save_eq)
    with i(1) show ?thesis
      by simp
  qed
  have ex: "\<exists>i<length todos. py_eq (id' (todos ! i)) (id' u) \<and>
               (\<forall>j<i. \<not> py_eq (id' (todos ! j)) (id' u))"
    if "\<exists>i<length todos. py_eq (id' (todos ! i)) (id' u)"
    using that by (rule first_with_id_exists)
  have none: "update rt self u fs = Inr (False, fs1) \<and>
             (fs1 (data_file self) = fs (data_file self) \<or> fs1 (data_file self) = None)"
    if n: "\<forall>i<length todos. \<not> py_eq (id' (todos ! i)) (id' u)"
  proof -
    from n have "first_with_id (id' u) 0 todos = None"
      unfolding first_with_id_None_nth by blast
    with assms have "update rt self u fs = Inr (False, fs1)"
      by (simp add: update_def)
    with load_file_not_written [OF assms] show ?thesis
      by simp
  qed
  show ?thesis
  proof (intro conjI)
    show "\<forall>i<length todos. py_eq (id' (todos ! i)) (id' u) \<longrightarrow>
            (\<forall>j<i. \<not> py_eq (id' (todos ! j)) (id' u)) \<longrightarrow>
            update rt self u fs =
              Inr (True, fs1(data_file self \<mapsto> json_dump rt (ListV (map to_dict (todos[i := u]))))) \<and>
            (todos[i := u]) ! i = u \<and>
            (\<forall>j<length todos. j \<noteq> i \<longrightarrow> (todos[i := u]) ! j = todos ! j) \<and>
            length (todos[i := u]) = length todos"
      using first by blast
    show "(\<exists>i<length todos. py_eq (id' (todos ! i)) (id' u)) \<longrightarrow>
            (\<exists>i<length todos. py_eq (id' (todos ! i)) (id' u) \<and>
               (\<forall>j<i. \<not> py_eq (id' (todos ! j)) (id' u)))"
      using ex by blast
    show "(\<forall>i<length todos. \<not> py_eq (id' (todos ! i)) (id' u)) \<longrightarrow>
             update rt self u fs = Inr (False, fs1) \<and>
             (fs1 (data_file self) = fs (data_file self) \<or> fs1 (data_file self) = None)"
      using none by blast
  qed
qed

theorem update_replaces_first_match_witness:
  "\<forall>body dump env.
     (let A = \<lparr> id' = StrV ''a'', title = StrV ''Buy milk'', description = StrV '''',
                completed = BoolV True, priority = PriorityV MEDIUM, category = StrV '''',
                due_date = NoneV, created_at = StrV ''2024-01-01T10:00:00'',
                completed_at = StrV ''2024-01-02T09:00:00'' \<rparr>;
          B = \<lparr> id' = StrV ''b'', title = StrV ''Pay rent'', description = StrV '''',
                completed = BoolV False, priority = PriorityV HIGH, category = StrV ''home'',
                due_date = StrV ''2024-02-01'', created_at = StrV ''2024-01-03T08:00:00'',
                completed_at = NoneV \<rparr>;
          p = \<lparr> parent = ''/home/user/.todocli'', name = ''todos.json'' \<rparr>;
          rt = \<lparr> json_load = (\<lambda>s. if s = body then Some (ListV [to_dict A, to_dict B]) else None),
                 json_dump = dump, factories_at = env \<rparr>
      in update rt \<lparr> data_file = p \<rparr> (B\<lparr> title := StrV ''Pay the rent'' \<rparr>) [p \<mapsto> body]
           = Inr (True, [p \<mapsto> dump (ListV [to_dict A, to_dict (B\<lparr> title := StrV ''Pay the rent'' \<rparr>)])])
       \<and> update rt \<lparr> data_file = p \<rparr> (B\<lparr> id' := StrV ''c'' \<rparr>) [p \<mapsto> body]
           = Inr (False, [p \<mapsto> body]))"
proof -
  {
    fix body :: string and dump :: "pyval \<Rightarrow> string" and env :: "nat \<Rightarrow> factories"
    let ?A = "\<lparr> id' = StrV ''a'', title = StrV ''Buy milk'', description = StrV '''',
                completed = BoolV True, priority = PriorityV MEDIUM, category = StrV '''',
                due_date = NoneV, created_at = StrV ''2024-01-01T10:00:00'',
                completed_at = StrV ''2024-01-02T09:00:00'' \<rparr>"
    let ?B = "\<lparr> id' = StrV ''b'', title = StrV ''Pay rent'', description = StrV '''',
                completed = BoolV False, priority = PriorityV HIGH, category = StrV ''home'',
                due_date = StrV ''2024-02-01'', created_at = StrV ''2024-01-03T08:00:00'',
                completed_at = NoneV \<rparr>"
    let ?p = "\<lparr> parent = ''/home/user/.todocli'', name = ''todos.json'' \<rparr>"
    let ?rt = "\<lparr> json_load = (\<lambda>s. if s = body then Some (ListV [to_dict ?A, to_dict ?B]) else None),
                 json_dump = dump, factories_at = env \<rparr>"
    let ?self = "\<lparr> data_file = ?p \<rparr>"
    let ?fs = "[?p \<mapsto> body]"
    have l: "load ?rt ?self ?fs = Inr ([?A, ?B], ?fs)"
      by (rule load_serialised [where body = body])
        (simp_all add: valid_Todo_def is_str_def is_optional_str_def)
    have "update ?rt ?self (?B\<lparr> title := StrV ''Pay the rent'' \<rparr>) ?fs
           = Inr (True, [?p \<mapsto> dump (ListV [to_dict ?A, to_dict (?B\<lparr> title := StrV ''Pay the rent'' \<rparr>)])])
       \<and> update ?rt ?self (?B\<lparr> id' := StrV ''c'' \<rparr>) ?fs
           = Inr (False, ?fs)"
      using update_replaces_first_match [OF l, of "?B\<lparr> title := StrV ''Pay the rent'' \<rparr>",
          THEN conjunct1, THEN spec, of "Suc 0"]
        update_replaces_first_match [OF l, of "?B\<lparr> id' := StrV ''c'' \<rparr>",
          THEN conjunct2, THEN conjunct2]
      by (simp add: All_less_Suc)
  }
  then show ?thesis
    unfolding Let_def by (intro allI)
qed

text \<open>
  Two stored items with the id \<open>a\<close>, and an update with that id. The item at position 1
  has the id of the update, but the collection that \<open>update\<close> writes is the stored one
  with position 0 replaced: position 1 does not hold the update, position 0 does not
  hold what it held, and the serialised collection is not the one with position 1
  replaced.
\<close>

theorem update_later_match_counterexample:
  "\<forall>body dump env.
     (let A = \<lparr> id' = StrV ''a'', title = StrV ''Buy milk'', description = StrV '''',
                completed = BoolV True, priority = PriorityV MEDIUM, category = StrV '''',
                due_date = NoneV, created_at = StrV ''2024-01-01T10:00:00'',
                completed_at = StrV ''2024-01-02T09:00:00'' \<rparr>;
          A2 = A\<lparr> title := StrV ''Buy bread'' \<rparr>;
          U = A\<lparr> title := StrV ''Buy oat milk'' \<rparr>;
          p = \<lparr> parent = ''/home/user/.todocli'', name = ''todos.json'' \<rparr>;
          rt = \<lparr> json_load = (\<lambda>s. if s = body then Some (ListV [to_dict A, to_dict A2]) else None),
                 json_dump = dump, factories_at = env \<rparr>
      in load rt \<lparr> data_file = p \<rparr> [p \<mapsto> body] = Inr ([A, A2], [p \<mapsto> body])
       \<and> Suc 0 < length [A, A2]
       \<and> py_eq (id' ([A, A2] ! Suc 0)) (id' U)
       \<and> update rt \<lparr> data_file = p \<rparr> U [p \<mapsto> body]
           = Inr (True, [p \<mapsto> dump (ListV (map to_dict ([A, A2][0 := U])))])
       \<and> ([A, A2][0 := U]) ! Suc 0 \<noteq> U
       \<and> ([A, A2][0 := U]) ! 0 \<noteq> [A, A2] ! 0
       \<and> map to_dict ([A, A2][0 := U]) \<noteq> map to_dict ([A, A2][Suc 0 := U]))"
proof -
  {
    fix body :: string and dump :: "pyval \<Rightarrow> string" and env :: "nat \<Rightarrow> factories"
    let ?A = "\<lparr> id' = StrV ''a'', title = StrV ''Buy milk'', description = StrV '''',
                completed = BoolV True, priority = PriorityV MEDIUM, category = StrV '''',
                due_date = NoneV, created_at = StrV ''2024-01-01T10:00:00'',
                completed_at = StrV ''2024-01-02T09:00:00'' \<rparr>"
    let ?A2 = "?A\<lparr> title := StrV ''Buy bread'' \<rparr>"
    let ?U = "?A\<lparr> title := StrV ''Buy oat milk'' \<rparr>"
    let ?p = "\<lparr> parent = ''/home/user/.todocli'', name = ''todos.json'' \<rparr>"
    let ?rt = "\<lparr> json_load = (\<lambda>s. if s = body then Some (ListV [to_dict ?A, to_dict ?A2]) else None),
                 json_dump = dump, factories_at = env \<rparr>"
    let ?self = "\<lparr> data_file = ?p \<rparr>"
    let ?fs = "[?p \<mapsto> body]"
    have l: "load ?rt ?self ?fs = Inr ([?A, ?A2], ?fs)"
      by (rule load_serialised [where body = body])
        (simp_all add: valid_Todo_def is_str_def is_optional_str_def)
    have u: "update ?rt ?self ?U ?fs
           = Inr (True, [?p \<mapsto> dump (ListV (map to_dict ([?A, ?A2][0 := ?U])))])"
      by (simp add: update_def l save_eq)
    have "load ?rt ?self ?fs = Inr ([?A, ?A2], ?fs)
       \<and> Suc 0 < length [?A, ?A2]
       \<and> py_eq (id' ([?A, ?A2] ! Suc 0)) (id' ?U)
       \<and> update ?rt ?self ?U ?fs
           = Inr (True, [?p \<mapsto> dump (ListV (map to_dict ([?A, ?A2][0 := ?U])))])
       \<and> ([?A, ?A2][0 := ?U]) ! Suc 0 \<noteq> ?U
       \<and> ([?A, ?A2][0 := ?U]) ! 0 \<noteq> [?A, ?A2] ! 0
       \<and> map to_dict ([?A, ?A2][0 := ?U]) \<noteq> map to_dict ([?A, ?A2][Suc 0 := ?U])"
      using l u by (simp add: to_dict_def)
  }
  then show ?thesis
    unfolding Let_def by (intro allI)
qed

text \<open>
  C7. \<open>clear_completed\<close> writes the items whose \<open>completed\<close> tests false, in their
  order, to the items file, and returns the number of items whose \<open>completed\<close> tests
  true; none of the items written tests true. When every \<open>completed\<close> is a
  \<^verbatim>\<open>bool\<close>, these are the items with \<open>completed = False\<close> and the number of items with
  \<open>completed = True\<close>.
\<close>

theorem clear_completed_counts:
  assumes "load rt self fs = Inr (todos, fs1)"
  shows "clear_completed rt self fs =
           Inr (int (length (filter (\<lambda>t. truthy (completed t)) todos)),
                fs1(data_file self \<mapsto>
                  json_dump rt (ListV (map to_dict (filter (\<lambda>t. \<not> truthy (completed t)) todos)))))
       \<and> filter (\<lambda>t. truthy (completed t)) (filter (\<lambda>t. \<not> truthy (completed t)) todos) = []
       \<and> ((\<forall>t\<in>set todos. \<exists>b. completed t = BoolV b) \<longrightarrow>
            filter (\<lambda>t. \<not> truthy (completed t)) todos = filter (\<lambda>t. completed t = BoolV False) todos \<and>
            filter (\<lambda>t. truthy (completed t)) todos = filter (\<lambda>t. completed t = BoolV True) todos)"
  using clear_completed_eq [OF assms] filter_bool_completed [of todos]
  by simp

theorem clear_completed_counts_witness:
  "\<forall>body dump env.
     (let A = \<lparr> id' = StrV ''a'', title = StrV ''Buy milk'', description = StrV '''',
                completed = BoolV True, priority = PriorityV MEDIUM, category = StrV '''',
                due_date = NoneV, created_at = StrV ''2024-01-01T10:00:00'',
                completed_at = StrV ''2024-01-02T09:00:00'' \<rparr>;
          B = \<lparr> id' = StrV ''b'', title = StrV ''Pay rent'', description = StrV '''',
                completed = BoolV False, priority = PriorityV HIGH, category = StrV ''home'',
                due_date = StrV ''2024-02-01'', created_at = StrV ''2024-01-03T08:00:00'',
                completed_at = NoneV \<rparr>;
          p = \<lparr> parent = ''/home/user/.todocli'', name = ''todos.json'' \<rparr>;
          rt = \<lparr> json_load = (\<lambda>s. if s = body then Some (ListV [to_dict A, to_dict B]) else None),
                 json_dump = dump, factories_at = env \<rparr>
      in clear_completed rt \<lparr> data_file = p \<rparr> [p \<mapsto> body]
           = Inr (1, [p \<mapsto> dump (ListV [to_dict B])]))"
proof -
  {
    fix body :: string and dump :: "pyval \<Rightarrow> string" and env :: "nat \<Rightarrow> factories"
    let ?A = "\<lparr> id' = StrV ''a'', title = StrV ''Buy milk'', description = StrV '''',
                completed = BoolV True, priority = PriorityV MEDIUM, category = StrV '''',
                due_date = NoneV, created_at = StrV ''2024-01-01T10:00:00'',
                completed_at = StrV ''2024-01-02T09:00:00'' \<rparr>"
    let ?B = "\<lparr> id' = StrV ''b'', title = StrV ''Pay rent'', description = StrV '''',
                completed = BoolV False, priority = PriorityV HIGH, category = StrV ''home'',
                due_date = StrV ''2024-02-01'', created_at = StrV ''2024-01-03T08:00:00'',
                completed_at = NoneV \<rparr>"
    let ?p = "\<lparr> parent = ''/home/user/.todocli'', name = ''todos.json'' \<rparr>"
    let ?rt = "\<lparr> json_load = (\<lambda>s. if s = body then Some (ListV [to_dict ?A, to_dict ?B]) else None),
                 json_dump = dump, factories_at = env \<rparr>"
    let ?self = "\<lparr> data_file = ?p \<rparr>"
    let ?fs = "[?p \<mapsto> body]"
    have l: "load ?rt ?self ?fs = Inr ([?A, ?B], ?fs)"
      by (rule load_serialised [where body = body])
        (simp_all add: valid_Todo_def is_str_def is_optional_str_def)
    have "clear_completed ?rt ?self ?fs = Inr (1, [?p \<mapsto> dump (ListV [to_dict ?B])])"
      using clear_completed_counts [OF l]
      by simp
  }
  then show ?thesis
    unfolding Let_def by (intro allI)
qed

text \<open>
  C8. When there is no file at the path, \<open>load\<close> returns the empty collection, not
  an exception, and the file system is as it was: no file has been created.
\<close>

theorem load_no_file:
  "fs (data_file self) = None \<Longrightarrow> load rt self fs = Inr ([], fs)"
  by (rule load_absent)

theorem load_no_file_witness:
  "\<forall>rt. load rt \<lparr> data_file = \<lparr> parent = ''/home/user/.todocli'', name = ''todos.json'' \<rparr> \<rparr> Map.empty
     = Inr ([], Map.empty)"
  using load_no_file [of Map.empty "\<lparr> data_file = \<lparr> parent = ''/home/user/.todocli'', name = ''todos.json'' \<rparr> \<rparr>"]
  by simp

text \<open>
  C9. No operation checks that ids are unique. \<open>add\<close> writes the collection with its
  argument appended, whatever ids are stored. When \<open>x\<close> is the first item with the id
  \<open>key\<close>, with \<open>pre\<close> before it and \<open>post\<close> after it, \<open>get\<close> returns \<open>x\<close> and
  \<open>delete\<close> writes \<open>pre @ post\<close> and returns \<open>True\<close>; \<open>update\<close> replaces the
  first item with the id of its argument; in both, \<open>post\<close> stays as it is, also when
  it holds further items with that id.
\<close>

theorem duplicate_ids_first_match:
  assumes "load rt self fs = Inr (todos, fs1)"
  shows "add rt self t fs =
           Inr (fs1(data_file self \<mapsto> json_dump rt (ListV (map to_dict (todos @ [t])))))
       \<and> (\<forall>pre x post. todos = pre @ x # post \<longrightarrow> (\<forall>y\<in>set pre. \<not> py_eq (id' y) key) \<longrightarrow>
              py_eq (id' x) key \<longrightarrow>
              get rt self key fs = Inr (Some x, fs1) \<and>
              delete rt self key fs =
                Inr (True, fs1(data_file self \<mapsto> json_dump rt (ListV (map to_dict (pre @ post))))))
       \<and> (\<forall>pre x post. todos = pre @ x # post \<longrightarrow> (\<forall>y\<in>set pre. \<not> py_eq (id' y) (id' u)) \<longrightarrow>
              py_eq (id' x) (id' u) \<longrightarrow>
              update rt self u fs =
                Inr (True, fs1(data_file self \<mapsto> json_dump rt (ListV (map to_dict (pre @ u # post))))))"
proof (intro conjI allI impI)
  show "add rt self t fs =
           Inr (fs1(data_file self \<mapsto> json_dump rt (ListV (map to_dict (todos @ [t])))))"
    using assms by (simp add: add_def save_eq)
next
  fix pre x post
  assume s: "todos = pre @ x # post" "\<forall>y\<in>set pre. \<not> py_eq (id' y) key" "py_eq (id' x) key"
  note i = first_with_id_split [OF s]
  show "get rt self key fs = Inr (Some x, fs1)"
    using assms i s(1) by (simp add: get_def)
  show "delete rt self key fs =
          Inr (True, fs1(data_file self \<mapsto> json_dump rt (ListV (map to_dict (pre @ post)))))"
    using assms i s(1) by (simp add: delete_def save_eq pop_def)
next
  fix pre x post
  assume s: "todos = pre @ x # post" "\<forall>y\<in>set pre. \<not> py_eq (id' y) (id' u)" "py_eq (id' x) (id' u)"
  note i = first_with_id_split [OF s]
  show "update rt self u fs =
          Inr (True, fs1(data_file self \<mapsto> json_dump rt (ListV (map to_dict (pre @ u # post)))))"
    using assms i s(1) by (simp add: update_def save_eq)
qed

theorem duplicate_ids_first_match_witness:
  "\<forall>body dump env.
     (let A = \<lparr> id' = StrV ''a'', title = StrV ''Buy milk'', description = StrV '''',
                completed = BoolV True, priority = PriorityV MEDIUM, category = StrV '''',
                due_date = NoneV, created_at = StrV ''2024-01-01T10:00:00'',
                completed_at = StrV ''2024-01-02T09:00:00'' \<rparr>;
          A2 = A\<lparr> title := StrV ''Buy bread'' \<rparr>;
          U = A\<lparr> title := StrV ''Buy oat milk'' \<rparr>;
          p = \<lparr> parent = ''/home/user/.todocli'', name = ''todos.json'' \<rparr>;
          rt = \<lparr> json_load = (\<lambda>s. if s = body then Some (ListV [to_dict A, to_dict A2]) else None),
                 json_dump = dump, factories_at = env \<rparr>
      in add rt \<lparr> data_file = p \<rparr> U [p \<mapsto> body]
           = Inr [p \<mapsto> dump (ListV [to_dict A, to_dict A2, to_dict U])]
       \<and> get rt \<lparr> data_file = p \<rparr> (StrV ''a'') [p \<mapsto> body] = Inr (Some A, [p \<mapsto> body])
       \<and> delete rt \<lparr> data_file = p \<rparr> (StrV ''a'') [p \<mapsto> body]
           = Inr (True, [p \<mapsto> dump (ListV [to_dict A2])])
       \<and> update rt \<lparr> data_file = p \<rparr> U [p \<mapsto> body]
           = Inr (True, [p \<mapsto> dump (ListV [to_dict U, to_dict A2])]))"
proof -
  {
    fix body :: string and dump :: "pyval \<Rightarrow> string" and env :: "nat \<Rightarrow> factories"
    let ?A = "\<lparr> id' = StrV ''a'', title = StrV ''Buy milk'', description = StrV '''',
                completed = BoolV True, priority = PriorityV MEDIUM, category = StrV '''',
                due_date = NoneV, created_at = StrV ''2024-01-01T10:00:00'',
                completed_at = StrV ''2024-01-02T09:00:00'' \<rparr>"
    let ?A2 = "?A\<lparr> title := StrV ''Buy bread'' \<rparr>"
    let ?U = "?A\<lparr> title := StrV ''Buy oat milk'' \<rparr>"
    let ?p = "\<lparr> parent = ''/home/user/.todocli'', name = ''todos.json'' \<rparr>"
    let ?rt = "\<lparr> json_load = (\<lambda>s. if s = body then Some (ListV [to_dict ?A, to_dict ?A2]) else None),
                 json_dump = dump, factories_at = env \<rparr>"
    let ?self = "\<lparr> data_file = ?p \<rparr>"
    let ?fs = "[?p \<mapsto> body]"
    have l: "load ?rt ?self ?fs = Inr ([?A, ?A2], ?fs)"
      by (rule load_serialised [where body = body])
        (simp_all add: valid_Todo_def is_str_def is_optional_str_def)
    have "add ?rt ?self ?U ?fs = Inr [?p \<mapsto> dump (ListV [to_dict ?A, to_dict ?A2, to_dict ?U])]
       \<and> get ?rt ?self (StrV ''a'') ?fs = Inr (Some ?A, ?fs)
       \<and> delete ?rt ?self (StrV ''a'') ?fs = Inr (True, [?p \<mapsto> dump (ListV [to_dict ?A2])])
       \<and> update ?rt ?self ?U ?fs = Inr (True, [?p \<mapsto> dump (ListV [to_dict ?U, to_dict ?A2])])"
      using duplicate_ids_first_match [OF l, of ?U "StrV ''a''" ?U, THEN conjunct1]
        duplicate_ids_first_match [OF l, of ?U "StrV ''a''" ?U, THEN conjunct2, THEN conjunct1,
          THEN spec, THEN spec, THEN spec, of "[]" ?A "[?A2]"]
        duplicate_ids_first_match [OF l, of ?U "StrV ''a''" ?U, THEN conjunct2, THEN conjunct2,
          THEN spec, THEN spec, THEN spec, of "[]" ?A "[?A2]"]
      by simp
  }
  then show ?thesis
    unfolding Let_def by (intro allI)
qed



end
